theory Spec2Isabelle
  imports Main
begin

section \<open>Strings and the regular expressions of validate.py\<close>

text \<open>
  Python byte strings and text strings are both modelled as \<^typ>\<open>string\<close>. The model
  reads a file's text as its bytes, which is what
  \<^verbatim>\<open>open(path, "r", encoding="utf-8", errors="ignore")\<close> returns for ASCII content
  without carriage returns; there the byte size equals the character count. Case
  folding, whitespace and word characters are the ASCII ones.
\<close>

definition lower_char :: "char \<Rightarrow> char" where
  \<comment> \<open>\<^verbatim>\<open>str.lower\<close> on one ASCII character\<close>
  "lower_char c =
     (let n = (of_char c :: nat)
      in if 65 \<le> n \<and> n \<le> 90 then ''abcdefghijklmnopqrstuvwxyz'' ! (n - 65) else c)"

definition lower :: "string \<Rightarrow> string" where
  "lower s = map lower_char s"

definition is_space :: "char \<Rightarrow> bool" where
  \<comment> \<open>\<^verbatim>\<open>str.isspace\<close> and the class \<^verbatim>\<open>\s\<close> on ASCII: TAB..CR, FS..US and the blank.\<close>
  "is_space c = (let n = (of_char c :: nat) in (9 \<le> n \<and> n \<le> 13) \<or> (28 \<le> n \<and> n \<le> 32))"

definition is_word :: "char \<Rightarrow> bool" where
  \<comment> \<open>The class \<^verbatim>\<open>\w\<close> on ASCII: letters, digits and the underscore.\<close>
  "is_word c =
     (let n = (of_char c :: nat)
      in (48 \<le> n \<and> n \<le> 57) \<or> (65 \<le> n \<and> n \<le> 90) \<or> n = 95 \<or> (97 \<le> n \<and> n \<le> 122))"

fun startswith :: "string \<Rightarrow> string \<Rightarrow> bool" where
  "startswith s [] = True"
| "startswith [] (p # ps) = False"
| "startswith (c # cs) (p # ps) = (c = p \<and> startswith cs ps)"

fun is_substring :: "string \<Rightarrow> string \<Rightarrow> bool" where
  \<comment> \<open>\<^verbatim>\<open>sub in s\<close>\<close>
  "is_substring sub [] = (sub = [])"
| "is_substring sub (c # cs) = (startswith (c # cs) sub \<or> is_substring sub cs)"

definition strip :: "string \<Rightarrow> string" where
  "strip s = rev (dropWhile is_space (rev (dropWhile is_space s)))"

definition startswith_ci :: "string \<Rightarrow> string \<Rightarrow> bool" where
  \<comment> \<open>A literal of a pattern compiled with \<^verbatim>\<open>re.IGNORECASE\<close>, matched at the start of \<open>s\<close>.\<close>
  "startswith_ci s p = startswith (lower s) (lower p)"

fun find_ci :: "string \<Rightarrow> string \<Rightarrow> nat option" where
  \<comment> \<open>The first offset at which the literal \<open>p\<close> matches, ignoring case.\<close>
  "find_ci p [] = (if p = [] then Some 0 else None)"
| "find_ci p (c # cs) =
     (if startswith_ci (c # cs) p then Some 0 else map_option Suc (find_ci p cs))"

text \<open>
  A pattern is modelled by its matcher: the number of characters the pattern matches at
  the start of the text, if it matches there. \<^verbatim>\<open>re.sub\<close> scans from the left, replaces
  a match and goes on behind it; the counter is the number of characters of the current
  match still to be skipped. None of the patterns below matches the empty string.
\<close>

fun re_sub_from :: "(string \<Rightarrow> nat option) \<Rightarrow> string \<Rightarrow> nat \<Rightarrow> string \<Rightarrow> string" where
  "re_sub_from m repl k [] = []"
| "re_sub_from m repl (Suc k) (c # cs) = re_sub_from m repl k cs"
| "re_sub_from m repl 0 (c # cs) =
     (case m (c # cs) of
        Some (Suc n) \<Rightarrow> repl @ re_sub_from m repl n cs
      | _ \<Rightarrow> c # re_sub_from m repl 0 cs)"

definition re_sub :: "(string \<Rightarrow> nat option) \<Rightarrow> string \<Rightarrow> string \<Rightarrow> string" where
  "re_sub m repl s = re_sub_from m repl 0 s"

fun re_search :: "(string \<Rightarrow> nat option) \<Rightarrow> string \<Rightarrow> bool" where
  "re_search m [] = (m [] \<noteq> None)"
| "re_search m (c # cs) = (m (c # cs) \<noteq> None \<or> re_search m cs)"

definition match_block :: "string \<Rightarrow> string \<Rightarrow> nat option" where
  \<comment> \<open>\<^verbatim>\<open><{tag}[^>]*>.*?</{tag}>\<close> with DOTALL and IGNORECASE\<close>
  "match_block tag s =
     (let opn = ''<'' @ tag; cls = ''</'' @ tag @ ''>''
      in if \<not> startswith_ci s opn then None
         else
           let r1 = drop (length opn) s;
               j = length (takeWhile (\<lambda>c. c \<noteq> CHR ''>'') r1)
           in if length r1 \<le> j then None
              else
                (case find_ci cls (drop (Suc j) r1) of
                   None \<Rightarrow> None
                 | Some k \<Rightarrow> Some (length opn + Suc j + k + length cls)))"

definition match_tag :: "string \<Rightarrow> nat option" where
  \<comment> \<open>\<^verbatim>\<open><[^>]+>\<close>\<close>
  "match_tag s =
     (case s of
        [] \<Rightarrow> None
      | c # r \<Rightarrow>
          if c \<noteq> CHR ''<'' then None
          else
            let j = length (takeWhile (\<lambda>c. c \<noteq> CHR ''>'') r)
            in if j = 0 \<or> length r \<le> j then None else Some (j + 2))"

definition match_entity :: "string \<Rightarrow> nat option" where
  \<comment> \<open>\<^verbatim>\<open>&#?\w+;\<close>\<close>
  "match_entity s =
     (case s of
        [] \<Rightarrow> None
      | c # r \<Rightarrow>
          if c \<noteq> CHR ''&'' then None
          else
            let h = (if startswith r ''#'' then 1 else 0);
                r' = drop h r;
                w = length (takeWhile is_word r')
            in if w = 0 then None
               else if startswith (drop w r') '';'' then Some (1 + h + w + 1)
               else None)"

definition match_spaces :: "string \<Rightarrow> nat option" where
  \<comment> \<open>\<^verbatim>\<open>\s+\<close>\<close>
  "match_spaces s =
     (let w = length (takeWhile is_space s) in if w = 0 then None else Some w)"

definition match_lit :: "string \<Rightarrow> string \<Rightarrow> nat option" where
  \<comment> \<open>the literal of \<^verbatim>\<open>str.replace\<close>\<close>
  "match_lit p s = (if p \<noteq> [] \<and> startswith s p then Some (length p) else None)"

definition str_replace :: "string \<Rightarrow> string \<Rightarrow> string \<Rightarrow> string" where
  "str_replace old new s = re_sub (match_lit old) new s"

text \<open>
  The two patterns of \<^verbatim>\<open>SHELL_ONLY_PATTERNS\<close>, searched with IGNORECASE. A matcher
  step returns the rest of the text behind what it matched.
\<close>

definition lit_ci :: "string \<Rightarrow> string \<Rightarrow> string option" where
  "lit_ci p s = (if startswith_ci s p then Some (drop (length p) s) else None)"

definition spaces1 :: "string \<Rightarrow> string option" where
  "spaces1 s =
     (case s of
        [] \<Rightarrow> None
      | c # r \<Rightarrow> if is_space c then Some (dropWhile is_space r) else None)"

definition match_skip_to_content :: "string \<Rightarrow> nat option" where
  \<comment> \<open>\<^verbatim>\<open>skip\s+to\s+(main\s+)?content\<close>\<close>
  "match_skip_to_content s =
     (case Option.bind (Option.bind (Option.bind (lit_ci ''skip'' s) spaces1) (lit_ci ''to'')) spaces1 of
        None \<Rightarrow> None
      | Some r \<Rightarrow>
          (case Option.bind (Option.bind (lit_ci ''main'' r) spaces1) (lit_ci ''content'') of
             Some e \<Rightarrow> Some (length s - length e)
           | None \<Rightarrow>
               (case lit_ci ''content'' r of
                  Some e \<Rightarrow> Some (length s - length e)
                | None \<Rightarrow> None)))"

definition match_skip_navigation :: "string \<Rightarrow> nat option" where
  \<comment> \<open>\<^verbatim>\<open>skip\s+navigation\<close>\<close>
  "match_skip_navigation s =
     (case Option.bind (Option.bind (lit_ci ''skip'' s) spaces1) (lit_ci ''navigation'') of
        None \<Rightarrow> None
      | Some e \<Rightarrow> Some (length s - length e))"

section \<open>validate.py\<close>

definition DOJ_INDICATORS :: "string list" where
  "DOJ_INDICATORS =
     [''access denied'',
      ''you don'' @ [CHR 0x27] @ ''t have permission to access'',
      ''403 forbidden'',
      ''department of justice'',
      ''justice.gov'',
      ''you are not authorized'',
      ''access to this page is restricted'']"

definition WAYBACK_ERROR_INDICATORS :: "string list" where
  "WAYBACK_ERROR_INDICATORS =
     [''the wayback machine has not archived'',
      ''this url has been excluded from the wayback machine'',
      ''hrly captures'',
      ''web.archive.org/web/'',
      ''sorry. this url has been excluded'',
      ''this snapshot cannot be displayed'',
      ''wayback machine doesn'' @ [CHR 0x27] @ ''t have that page archived'',
      ''got an http 302 response'']"

definition GENERIC_ERROR_INDICATORS :: "string list" where
  "GENERIC_ERROR_INDICATORS =
     [''page not found'',
      ''404 not found'',
      ''404 error'',
      ''the page you are looking for'',
      ''this page has been removed'',
      ''this page is no longer available'',
      ''the requested url was not found'',
      ''we'' @ [CHR 0x27] @ ''re sorry, but the page you requested'',
      ''content no longer available'',
      ''has been archived or removed'',
      ''server error'',
      ''500 internal server error'',
      ''502 bad gateway'',
      ''503 service unavailable'']"

definition SHELL_ONLY_PATTERNS :: "(string \<Rightarrow> nat option) list" where
  "SHELL_ONLY_PATTERNS = [match_skip_to_content, match_skip_navigation]"

definition FILE_SIGNATURES :: "(string \<times> string) list" where
  \<comment> \<open>in the order of the dictionary literal, which is the order of iteration\<close>
  "FILE_SIGNATURES =
     [(''%PDF'', ''pdf''),
      ([CHR ''P'', CHR ''K'', CHR 0x03, CHR 0x04], ''zip_based''),
      ([CHR 0xD0, CHR 0xCF, CHR 0x11], ''ole''),
      ([CHR 0x89, CHR ''P'', CHR ''N'', CHR ''G''], ''png''),
      ([CHR 0xFF, CHR 0xD8, CHR 0xFF], ''jpg''),
      (''GIF8'', ''gif''),
      ([CHR ''{'', CHR 0x5C], ''rtf'')]"

fun match_signature :: "string \<Rightarrow> (string \<times> string) list \<Rightarrow> string option" where
  "match_signature header [] = None"
| "match_signature header ((sig, ftype) # rest) =
     (if startswith header sig then Some ftype else match_signature header rest)"

definition detect_file_type :: "string option \<Rightarrow> string" where
  \<comment> \<open>The argument is the content of the file at the path; None when it cannot be opened.\<close>
  "detect_file_type file =
     (case file of
        None \<Rightarrow> ''unknown''
      | Some data \<Rightarrow>
          let header = take 16 data
          in (case match_signature header FILE_SIGNATURES of
                Some ftype \<Rightarrow> ftype
              | None \<Rightarrow>
                  let text_start = lower (strip header)
                  in if startswith text_start ''<!doctype'' \<or> startswith text_start ''<html''
                        \<or> startswith text_start ''<?xml''
                     then ''html''
                     else
                       let sample = take 2000 data
                       in if is_substring ''<html'' (lower sample)
                             \<or> is_substring ''<body'' (lower sample)
                          then ''html''
                          else ''text''))"

definition splitext_ext :: "string \<Rightarrow> string" where
  \<comment> \<open>\<^verbatim>\<open>os.path.splitext(p)[1]\<close>: from the last dot of the last path component, unless
      only dots stand before it.\<close>
  "splitext_ext p =
     (let name = rev (takeWhile (\<lambda>c. c \<noteq> CHR ''/'') (rev p))
      in if CHR ''.'' \<notin> set name then []
         else
           let e = rev (takeWhile (\<lambda>c. c \<noteq> CHR ''.'') (rev name));
               stem = take (length name - length e - 1) name
           in if list_ex (\<lambda>c. c \<noteq> CHR ''.'') stem then CHR ''.'' # e else [])"

definition is_html_masquerading_as_pdf :: "(string \<rightharpoonup> string) \<Rightarrow> string \<Rightarrow> bool" where
  "is_html_masquerading_as_pdf fs filepath =
     (if lower (splitext_ext filepath) \<noteq> ''.pdf'' then False
      else detect_file_type (fs filepath) = ''html'')"

definition extract_visible_text :: "string \<Rightarrow> string" where
  "extract_visible_text html_content =
     (let text = fold (\<lambda>tag t. re_sub (match_block tag) [] t)
                   [''script'', ''style'', ''noscript'', ''nav'', ''header'', ''footer'']
                   html_content;
          text = re_sub match_tag '' '' text;
          text = str_replace ''&amp;'' ''&'' (str_replace ''&nbsp;'' '' '' text);
          text = str_replace ''&gt;'' ''>'' (str_replace ''&lt;'' ''<'' text);
          text = re_sub match_entity '' '' text
      in strip (re_sub match_spaces '' '' text))"

definition check_for_junk_indicators :: "string \<Rightarrow> string list \<Rightarrow> string list" where
  "check_for_junk_indicators text indicators =
     filter (\<lambda>indicator. is_substring (lower indicator) (lower text)) indicators"

fun shell_loop :: "(string \<Rightarrow> nat option) list \<Rightarrow> string \<Rightarrow> nat \<Rightarrow> nat \<Rightarrow> bool" where
  \<comment> \<open>The loop of \<^verbatim>\<open>is_empty_shell\<close>: True when it returns from inside the loop.\<close>
  "shell_loop [] html_content n min_chars = False"
| "shell_loop (pat # pats) html_content n min_chars =
     (if re_search pat html_content \<and> n < min_chars then True
      else shell_loop pats html_content n min_chars)"

definition is_empty_shell :: "string \<Rightarrow> nat \<Rightarrow> bool \<times> nat \<times> string" where
  "is_empty_shell html_content min_chars =
     (let visible_text = extract_visible_text html_content
      in if shell_loop SHELL_ONLY_PATTERNS html_content (length visible_text) min_chars
         then (True, length visible_text, ''shell_page_no_content'')
         else if length visible_text < min_chars
         then (True, length visible_text, ''insufficient_content'')
         else (False, length visible_text, ''ok''))"

datatype detail = DInt nat | DStr string | DList "string list"

record ValidationResult =
  valid :: bool
  filepath :: string
  reason :: string
  details :: "(string \<times> detail) list"

definition mk_result :: "bool \<Rightarrow> string \<Rightarrow> string \<Rightarrow> (string \<times> detail) list \<Rightarrow> ValidationResult" where
  \<comment> \<open>the constructor \<^verbatim>\<open>ValidationResult(valid, filepath, reason, details)\<close>\<close>
  "mk_result v p r d = \<lparr>valid = v, filepath = p, reason = r, details = d\<rparr>"

definition validate_content :: "(string \<rightharpoonup> string) \<Rightarrow> string \<Rightarrow> nat \<Rightarrow> ValidationResult" where
  \<comment> \<open>\<open>fs\<close> maps a path to the content of the file there. The \<^verbatim>\<open>read_error\<close> branch
      (an exception while reading a file that exists) has no counterpart in \<open>fs\<close>.\<close>
  "validate_content fs path min_text_chars =
     (case fs path of
        None \<Rightarrow> mk_result False path ''file_not_found'' []
      | Some content \<Rightarrow>
          let file_size = length content
          in if file_size = 0 then mk_result False path ''file_empty'' []
             else if file_size < 200
             then mk_result False path ''file_too_small'' [(''size_bytes'', DInt file_size)]
             else
               let actual_type = detect_file_type (fs path)
               in if actual_type \<in> set [''pdf'', ''zip_based'', ''ole'', ''rtf'']
                  then mk_result True path ''ok''
                         [(''actual_type'', DStr actual_type), (''size_bytes'', DInt file_size)]
                  else if actual_type \<in> set [''png'', ''jpg'', ''gif'']
                  then mk_result True path ''ok''
                         [(''actual_type'', DStr actual_type), (''size_bytes'', DInt file_size)]
                  else if actual_type \<notin> set [''html'', ''text'']
                  then
                    (if 5000 < file_size
                     then mk_result True path ''ok''
                            [(''actual_type'', DStr ''unknown_binary''), (''size_bytes'', DInt file_size)]
                     else mk_result False path ''file_too_small''
                            [(''actual_type'', DStr actual_type), (''size_bytes'', DInt file_size)])
                  else
                    let ext = lower (splitext_ext path)
                    in if ext = ''.pdf'' \<and> actual_type = ''html''
                       then mk_result False path ''html_masquerade''
                              [(''declared_type'', DStr ''pdf''), (''actual_type'', DStr ''html'')]
                       else
                         let doj_matches = check_for_junk_indicators content DOJ_INDICATORS
                         in if doj_matches \<noteq> []
                            then mk_result False path ''doj_access_denied''
                                   [(''matched_indicators'', DList doj_matches)]
                            else
                              let wb_matches = check_for_junk_indicators content WAYBACK_ERROR_INDICATORS
                              in if wb_matches \<noteq> []
                                 then mk_result False path ''wayback_error''
                                        [(''matched_indicators'', DList wb_matches)]
                                 else
                                   let err_matches = check_for_junk_indicators content GENERIC_ERROR_INDICATORS
                                   in if err_matches \<noteq> []
                                         \<and> length (extract_visible_text content) < 2000
                                      then mk_result False path ''generic_error_page''
                                             [(''matched_indicators'', DList err_matches),
                                              (''visible_chars'', DInt (length (extract_visible_text content)))]
                                      else
                                        (case is_empty_shell content min_text_chars of
                                           (is_shell, char_count, shell_reason) \<Rightarrow>
                                             if is_shell
                                             then mk_result False path shell_reason
                                                    [(''visible_chars'', DInt char_count)]
                                             else mk_result True path ''ok''
                                                    [(''actual_type'', DStr actual_type),
                                                     (''size_bytes'', DInt file_size),
                                                     (''visible_chars'', DInt (length (extract_visible_text content)))]))"

section \<open>Paths and the file system\<close>

definition path_join :: "string \<Rightarrow> string \<Rightarrow> string" where
  \<comment> \<open>\<^verbatim>\<open>os.path.join(a, b)\<close> for POSIX paths\<close>
  "path_join a b =
     (if startswith b ''/'' then b
      else if a = [] \<or> last a = CHR ''/'' then a @ b
      else a @ ''/'' @ b)"

definition basename :: "string \<Rightarrow> string" where
  "basename p = rev (takeWhile (\<lambda>c. c \<noteq> CHR ''/'') (rev p))"

definition splitext :: "string \<Rightarrow> string \<times> string" where
  "splitext p = (take (length p - length (splitext_ext p)) p, splitext_ext p)"

fun show_nat :: "nat \<Rightarrow> string" where
  \<comment> \<open>the decimal digits of a counter, as an f-string prints them\<close>
  "show_nat n =
     (if n < 10 then [''0123456789'' ! n]
      else show_nat (n div 10) @ [''0123456789'' ! (n mod 10)])"

declare show_nat.simps [simp del]

fun read_nat :: "string \<Rightarrow> nat" where
  "read_nat s = foldl (\<lambda>a c. 10 * a + (of_char c - 48)) 0 s"

lemma digit_value: "d < 10 \<Longrightarrow> (of_char (''0123456789'' ! d) :: nat) = 48 + d"
proof -
  assume "d < 10"
  then have "d \<in> {0, 1, 2, 3, 4, 5, 6, 7, 8, 9}" by auto
  then show ?thesis by auto
qed

lemma read_show_nat: "read_nat (show_nat n) = n"
proof (induction n rule: show_nat.induct)
  case (1 n)
  show ?case
  proof (cases "n < 10")
    case True
    then show ?thesis by (simp add: show_nat.simps [of n] digit_value)
  next
    case False
    with "1.IH" have "read_nat (show_nat (n div 10)) = n div 10" by simp
    with False show ?thesis
      by (simp add: show_nat.simps [of n] digit_value)
  qed
qed

lemma show_nat_inj: "show_nat a = show_nat b \<Longrightarrow> a = b"
  by (metis read_show_nat)

definition numbered :: "string \<Rightarrow> string \<Rightarrow> nat \<Rightarrow> string" where
  \<comment> \<open>\<^verbatim>\<open>f"{base}_{counter}{ext}"\<close>\<close>
  "numbered base ext k = base @ ''_'' @ show_nat k @ ext"

lemma numbered_inj: "inj (numbered base ext)"
  by (rule injI) (simp add: numbered_def show_nat_inj)

lemma finite_numbered: "finite {k. numbered base ext k \<in> set taken}"
proof -
  have "{k. numbered base ext k \<in> set taken} = numbered base ext -` set taken"
    by auto
  then show ?thesis
    by (simp add: finite_vimageI numbered_inj)
qed

lemma card_numbered_step:
  "card {k. c \<le> k \<and> numbered base ext k \<in> set taken} =
   card {k. Suc c \<le> k \<and> numbered base ext k \<in> set taken}
     + (if numbered base ext c \<in> set taken then 1 else 0)"
proof -
  let ?A = "{k. Suc c \<le> k \<and> numbered base ext k \<in> set taken}"
  have fin: "finite ?A"
    by (rule finite_subset [OF _ finite_numbered [of base ext taken]]) auto
  show ?thesis
  proof (cases "numbered base ext c \<in> set taken")
    case True
    then have "{k. c \<le> k \<and> numbered base ext k \<in> set taken} = insert c ?A"
      by (auto simp: Suc_le_eq le_less)
    moreover have "c \<notin> ?A" by simp
    ultimately show ?thesis using fin True by simp
  next
    case False
    then have "{k. c \<le> k \<and> numbered base ext k \<in> set taken} = ?A"
      by (auto simp: Suc_le_eq le_less)
    then show ?thesis using False by simp
  qed
qed

function unique_loop :: "string list \<Rightarrow> string \<Rightarrow> string \<Rightarrow> nat \<Rightarrow> string \<Rightarrow> string" where
  \<comment> \<open>\<^verbatim>\<open>while os.path.exists(fpath): fpath = f"{base}_{counter}{ext}"; counter += 1\<close>,
      over the paths \<open>taken\<close> in the directory\<close>
  "unique_loop taken base ext counter fpath =
     (if fpath \<in> set taken
      then unique_loop taken base ext (Suc counter) (numbered base ext counter)
      else fpath)"
  by pat_completeness auto
termination
proof (relation "measure (\<lambda>(taken, base, ext, counter, fpath).
          card {k. counter \<le> k \<and> numbered base ext k \<in> set taken}
            + (if fpath \<in> set taken then 1 else 0))")
  show "wf (measure (\<lambda>(taken, base, ext, counter, fpath).
          card {k. counter \<le> k \<and> numbered base ext k \<in> set taken}
            + (if fpath \<in> set taken then 1 else 0)))"
    by simp
next
  fix taken :: "string list" and base ext :: string and counter :: nat and fpath :: string
  assume "fpath \<in> set taken"
  then show "((taken, base, ext, Suc counter, numbered base ext counter),
              (taken, base, ext, counter, fpath))
        \<in> measure (\<lambda>(taken, base, ext, counter, fpath).
            card {k. counter \<le> k \<and> numbered base ext k \<in> set taken}
              + (if fpath \<in> set taken then 1 else 0))"
    using card_numbered_step [of counter base ext taken] by simp
qed

declare unique_loop.simps [simp del]

section \<open>harvest\_v2.py: the world the harvester runs in\<close>

text \<open>
  The row directories hold downloaded files (path and bytes) and, in a store of their
  own, the \<^verbatim>\<open>metadata.json\<close> files. Every \<^verbatim>\<open>session.get\<close> is logged in \<open>requests\<close>,
  so that "no fetch is performed" is a statement about the state. Delays
  (\<^verbatim>\<open>time.sleep\<close>) and log lines are left out.
\<close>

record Response =
  status_code :: nat
  resp_url :: string
  resp_content_type :: string
  resp_content :: string
  resp_text :: string

record file_entry =
  filename :: string
  source_url :: string
  wayback_url :: "string option"
  page_url :: "string option"
  size_bytes :: nat
  sha256 :: "string option"
  content_type :: string
  source :: string
  download_type :: "string option"
  needs_conversion :: bool
  validation_failed :: bool
  validation :: ValidationResult

record attempt =
  a_source :: string
  a_result :: string

record row_data =
  row_id :: string
  office :: string
  doc_number :: string
  title :: string
  date :: string
  doc_type :: string
  urls :: "string list"

record metadata = row_data +
  portal_status :: string
  status :: string
  source_used :: "string option"
  files_downloaded :: "file_entry list"
  attempts :: "attempt list"
  harvested_at :: string
  harvester_version :: string

record portal_entry =
  sheet :: string
  portal_url :: "string option"
  pe_status :: "string option"

datatype meta_file = Saved metadata | Unreadable

record world =
  files :: "(string \<times> string) list"
  metas :: "(string \<times> meta_file) list"
  requests :: "string list"

text \<open>
  What the harvester takes from the network and from libraries is a parameter of the
  model: the answer to a GET (None when \<^verbatim>\<open>requests\<close> raises a RequestException),
  \<^verbatim>\<open>guess_filename\<close> (a chain of header, URL and content-type lookups through
  \<^verbatim>\<open>urllib\<close> and \<^verbatim>\<open>re\<close>), the hash of a file's bytes, whether BeautifulSoup can be
  imported and the \<^verbatim>\<open>href\<close> values it finds in a page, \<^verbatim>\<open>urljoin\<close>, the path and
  host parts of \<^verbatim>\<open>urlparse\<close>, and the clock. Every result below holds for all of them.
\<close>

record env =
  http_get :: "string \<Rightarrow> Response option"
  guess_filename :: "Response \<Rightarrow> string \<Rightarrow> string"
  sha256_file :: "string \<Rightarrow> string"
  bs4_available :: bool
  anchor_hrefs :: "string \<Rightarrow> string list"
  urljoin :: "string \<Rightarrow> string \<Rightarrow> string"
  url_path :: "string \<Rightarrow> string"
  url_netloc :: "string \<Rightarrow> string"
  now :: string

definition MIN_TEXT_CHARS :: nat where
  "MIN_TEXT_CHARS = 500"

definition session_get :: "env \<Rightarrow> string \<Rightarrow> world \<Rightarrow> Response option \<times> world" where
  "session_get e url w = (http_get e url, w\<lparr>requests := requests w @ [url]\<rparr>)"

definition raise_for_status :: "Response \<Rightarrow> bool" where
  \<comment> \<open>True when \<^verbatim>\<open>raise_for_status\<close> raises: a 4xx or 5xx answer\<close>
  "raise_for_status resp = (400 \<le> status_code resp \<and> status_code resp < 600)"

definition path_exists :: "world \<Rightarrow> string \<Rightarrow> bool" where
  "path_exists w p = (p \<in> set (map fst (files w)) \<or> p \<in> set (map fst (metas w)))"

definition write_file :: "string \<Rightarrow> string \<Rightarrow> world \<Rightarrow> world" where
  "write_file p data w = w\<lparr>files := (p, data) # filter (\<lambda>f. fst f \<noteq> p) (files w)\<rparr>"

definition remove_file :: "string \<Rightarrow> world \<Rightarrow> world" where
  "remove_file p w = w\<lparr>files := filter (\<lambda>f. fst f \<noteq> p) (files w)\<rparr>"

definition read_files :: "world \<Rightarrow> (string \<rightharpoonup> string)" where
  "read_files w = map_of (files w)"

definition unique_path :: "world \<Rightarrow> string \<Rightarrow> string" where
  \<comment> \<open>the "avoid overwriting" loop, started with counter 1\<close>
  "unique_path w fpath =
     (case splitext fpath of
        (base, ext) \<Rightarrow> unique_loop (map fst (files w) @ map fst (metas w)) base ext 1 fpath)"

definition any_in :: "string list \<Rightarrow> string \<Rightarrow> bool" where
  \<comment> \<open>\<^verbatim>\<open>any(ct in content_type for ct in [...])\<close>\<close>
  "any_in cts ctype = list_ex (\<lambda>ct. is_substring ct ctype) cts"

section \<open>harvest\_v2.py: the download helpers\<close>

definition save_html_page ::
  "env \<Rightarrow> string \<Rightarrow> string \<Rightarrow> string \<Rightarrow> string \<Rightarrow> world \<Rightarrow> file_entry list \<times> world" where
  "save_html_page e html_content pg_url row_dir src w =
     (let html_path = path_join row_dir ''page_content.html'';
          w1 = write_file html_path html_content w;
          vr = validate_content (read_files w1) html_path MIN_TEXT_CHARS
      in if valid vr
         then ([\<lparr>filename = ''page_content.html'', source_url = pg_url, wayback_url = None,
                  page_url = None, size_bytes = length html_content,
                  sha256 = Some (sha256_file e html_content), content_type = ''text/html'',
                  source = src, download_type = None, needs_conversion = True,
                  validation_failed = False, validation = vr\<rparr>], w1)
         else ([\<lparr>filename = ''page_content.html'', source_url = pg_url, wayback_url = None,
                  page_url = None, size_bytes = length html_content,
                  sha256 = None, content_type = ''text/html'',
                  source = src, download_type = None, needs_conversion = False,
                  validation_failed = True, validation = vr\<rparr>], w1))"

definition file_extensions :: "string list" where
  "file_extensions =
     [''.pdf'', ''.doc'', ''.docx'', ''.xls'', ''.xlsx'', ''.ppt'', ''.pptx'', ''.rtf'', ''.txt'']"

fun scrape_loop ::
  "env \<Rightarrow> string list \<Rightarrow> string \<Rightarrow> string \<Rightarrow> string \<Rightarrow> file_entry list \<Rightarrow> string list \<Rightarrow> world
     \<Rightarrow> file_entry list \<times> world" where
  \<comment> \<open>the loop over \<^verbatim>\<open>soup.find_all("a", href=True)\<close>, with \<open>downloaded\<close> and \<open>seen_urls\<close>\<close>
  "scrape_loop e [] pg_url row_dir src downloaded seen_urls w = (downloaded, w)"
| "scrape_loop e (h # hs) pg_url row_dir src downloaded seen_urls w =
     (let href = strip h
      in if href = [] then scrape_loop e hs pg_url row_dir src downloaded seen_urls w
         else
           let full_url = urljoin e pg_url href;
               ext = lower (splitext_ext (url_path e full_url))
           in if ext \<in> set file_extensions \<and> full_url \<notin> set seen_urls
              then
                (case session_get e full_url w of
                   (None, w1) \<Rightarrow>
                     scrape_loop e hs pg_url row_dir src downloaded (full_url # seen_urls) w1
                 | (Some dl_resp, w1) \<Rightarrow>
                     if raise_for_status dl_resp
                     then scrape_loop e hs pg_url row_dir src downloaded (full_url # seen_urls) w1
                     else
                       let fpath = unique_path w1
                                     (path_join row_dir (guess_filename e dl_resp full_url));
                           fname = basename fpath;
                           w2 = write_file fpath (resp_content dl_resp) w1;
                           vr = validate_content (read_files w2) fpath MIN_TEXT_CHARS
                       in if valid vr
                          then scrape_loop e hs pg_url row_dir src
                                 (downloaded @
                                    [\<lparr>filename = fname, source_url = full_url, wayback_url = None,
                                      page_url = Some pg_url,
                                      size_bytes = length (resp_content dl_resp),
                                      sha256 = Some (sha256_file e (resp_content dl_resp)),
                                      content_type = resp_content_type dl_resp, source = src,
                                      download_type = Some ''scraped_from_page'',
                                      needs_conversion = False, validation_failed = False,
                                      validation = vr\<rparr>])
                                 (full_url # seen_urls) w2
                          else scrape_loop e hs pg_url row_dir src downloaded
                                 (full_url # seen_urls) (remove_file fpath w2))
              else scrape_loop e hs pg_url row_dir src downloaded seen_urls w)"

definition scrape_page_for_files ::
  "env \<Rightarrow> Response \<Rightarrow> string \<Rightarrow> string \<Rightarrow> string \<Rightarrow> world \<Rightarrow> file_entry list \<times> world" where
  "scrape_page_for_files e response pg_url row_dir src w =
     (if \<not> bs4_available e then save_html_page e (resp_text response) pg_url row_dir src w
      else
        (case scrape_loop e (anchor_hrefs e (resp_text response)) pg_url row_dir src [] [] w of
           (downloaded, w1) \<Rightarrow>
             if downloaded \<noteq> [] then (downloaded, w1)
             else save_html_page e (resp_text response) pg_url row_dir src w1))"

definition try_download_url ::
  "env \<Rightarrow> string \<Rightarrow> string \<Rightarrow> string \<Rightarrow> world \<Rightarrow> file_entry list \<times> world" where
  "try_download_url e url row_dir src w =
     (case session_get e url w of
        (None, w1) \<Rightarrow> ([], w1)
      | (Some resp, w1) \<Rightarrow>
          if raise_for_status resp then ([], w1)
          else
            let ctype = lower (resp_content_type resp)
            in if any_in [''pdf'', ''msword'', ''officedocument'', ''octet-stream'',
                          ''ms-excel'', ''ms-powerpoint'', ''rtf''] ctype
               then
                 let fpath = unique_path w1 (path_join row_dir (guess_filename e resp url));
                     fname = basename fpath;
                     w2 = write_file fpath (resp_content resp) w1;
                     vr = validate_content (read_files w2) fpath MIN_TEXT_CHARS
                 in if valid vr
                    then ([\<lparr>filename = fname, source_url = url, wayback_url = None,
                             page_url = None, size_bytes = length (resp_content resp),
                             sha256 = Some (sha256_file e (resp_content resp)),
                             content_type = ctype, source = src, download_type = None,
                             needs_conversion = False, validation_failed = False,
                             validation = vr\<rparr>], w2)
                    else ([], remove_file fpath w2)
               else if is_substring ''html'' ctype \<or> is_substring ''text'' ctype
               then scrape_page_for_files e resp url row_dir src w1
               else ([], w1))"

section \<open>harvest\_v2.py: the three sources\<close>

definition try_portal_source ::
  "env \<Rightarrow> 'a row_data_scheme \<Rightarrow> (string \<rightharpoonup> portal_entry) \<Rightarrow> string \<Rightarrow> world
     \<Rightarrow> file_entry list \<times> world" where
  "try_portal_source e row portal_map row_dir w =
     (let p_url = (case portal_map (row_id row) of
                     None \<Rightarrow> []
                   | Some entry \<Rightarrow> (case portal_url entry of None \<Rightarrow> [] | Some u \<Rightarrow> u))
      in if p_url = [] then ([], w)
         else try_download_url e p_url row_dir ''portal'' w)"

fun direct_loop ::
  "env \<Rightarrow> string list \<Rightarrow> string \<Rightarrow> file_entry list \<Rightarrow> world \<Rightarrow> file_entry list \<times> world" where
  "direct_loop e [] row_dir all_files w = (all_files, w)"
| "direct_loop e (url # rest) row_dir all_files w =
     (case try_download_url e url row_dir ''direct'' w of
        (fs, w1) \<Rightarrow>
          if fs \<noteq> [] then (all_files @ fs, w1)
          else direct_loop e rest row_dir (all_files @ fs) w1)"

definition try_direct_urls ::
  "env \<Rightarrow> 'a row_data_scheme \<Rightarrow> string \<Rightarrow> world \<Rightarrow> file_entry list \<times> world" where
  "try_direct_urls e row row_dir w =
     (if urls row = [] then ([], w) else direct_loop e (urls row) row_dir [] w)"

fun wayback_loop ::
  "env \<Rightarrow> string list \<Rightarrow> string \<Rightarrow> world \<Rightarrow> file_entry list \<times> world" where
  "wayback_loop e [] row_dir w = ([], w)"
| "wayback_loop e (url # rest) row_dir w =
     (let wb_url = ''https://web.archive.org/web/2/'' @ url
      in (case session_get e wb_url w of
            (None, w1) \<Rightarrow> wayback_loop e rest row_dir w1
          | (Some resp, w1) \<Rightarrow>
              if status_code resp \<noteq> 200 then wayback_loop e rest row_dir w1
              else if is_substring ''justice.gov'' (lower (url_netloc e (resp_url resp)))
              then wayback_loop e rest row_dir w1
              else
                let ctype = lower (resp_content_type resp)
                in if any_in [''pdf'', ''msword'', ''officedocument'', ''octet-stream''] ctype
                   then
                     let fname = guess_filename e resp url;
                         fpath = path_join row_dir fname;
                         w2 = write_file fpath (resp_content resp) w1;
                         vr = validate_content (read_files w2) fpath MIN_TEXT_CHARS
                     in if valid vr
                        then ([\<lparr>filename = fname, source_url = url, wayback_url = Some wb_url,
                                 page_url = None, size_bytes = length (resp_content resp),
                                 sha256 = Some (sha256_file e (resp_content resp)),
                                 content_type = ctype, source = ''wayback'',
                                 download_type = None, needs_conversion = False,
                                 validation_failed = False, validation = vr\<rparr>], w2)
                        else wayback_loop e rest row_dir (remove_file fpath w2)
                   else if is_substring ''html'' ctype \<or> is_substring ''text'' ctype
                   then
                     let html_content = resp_text resp
                     in if check_for_junk_indicators html_content DOJ_INDICATORS \<noteq> []
                        then wayback_loop e rest row_dir w1
                        else if check_for_junk_indicators html_content WAYBACK_ERROR_INDICATORS \<noteq> []
                        then wayback_loop e rest row_dir w1
                        else
                          let html_path = path_join row_dir ''wayback_page.html'';
                              w2 = write_file html_path html_content w1;
                              vr = validate_content (read_files w2) html_path MIN_TEXT_CHARS
                          in if valid vr
                             then ([\<lparr>filename = ''wayback_page.html'', source_url = url,
                                      wayback_url = Some wb_url, page_url = None,
                                      size_bytes = length html_content,
                                      sha256 = Some (sha256_file e html_content),
                                      content_type = ''text/html'', source = ''wayback'',
                                      download_type = None, needs_conversion = True,
                                      validation_failed = False, validation = vr\<rparr>], w2)
                             else wayback_loop e rest row_dir (remove_file html_path w2)
                   else wayback_loop e rest row_dir w1))"

definition try_wayback_source ::
  "env \<Rightarrow> 'a row_data_scheme \<Rightarrow> string \<Rightarrow> world \<Rightarrow> file_entry list \<times> world" where
  "try_wayback_source e row row_dir w =
     (if urls row = [] then ([], w) else wayback_loop e (take 3 (urls row)) row_dir w)"

section \<open>harvest\_v2.py: the orchestrator and the resume check\<close>

definition save_metadata :: "metadata \<Rightarrow> string \<Rightarrow> world \<Rightarrow> world" where
  "save_metadata md row_dir w =
     (let meta_path = path_join row_dir ''metadata.json''
      in w\<lparr>metas := (meta_path, Saved md) # filter (\<lambda>f. fst f \<noteq> meta_path) (metas w)\<rparr>)"

definition add_attempt :: "string \<Rightarrow> string \<Rightarrow> metadata \<Rightarrow> metadata" where
  \<comment> \<open>\<^verbatim>\<open>metadata["attempts"].append({"source": s, "result": r})\<close>\<close>
  "add_attempt s r md = md\<lparr>attempts := attempts md @ [\<lparr>a_source = s, a_result = r\<rparr>]\<rparr>"

definition accepted :: "file_entry list \<Rightarrow> bool" where
  \<comment> \<open>\<^verbatim>\<open>files and not any(f.get("validation_failed") for f in files)\<close>\<close>
  "accepted fs = (fs \<noteq> [] \<and> \<not> list_ex validation_failed fs)"

definition succeed :: "file_entry list \<Rightarrow> string \<Rightarrow> metadata \<Rightarrow> metadata" where
  "succeed fs src md = md\<lparr>files_downloaded := fs, source_used := Some src, status := ''success''\<rparr>"

definition new_metadata :: "env \<Rightarrow> row_data \<Rightarrow> (string \<rightharpoonup> portal_entry) \<Rightarrow> metadata" where
  \<comment> \<open>the dictionary \<^verbatim>\<open>metadata\<close> as \<^verbatim>\<open>harvest_row\<close> first builds it\<close>
  "new_metadata e row portal_map =
     row_data.extend row
       (metadata.fields
          (case portal_map (row_id row) of
             None \<Rightarrow> ''unknown''
           | Some entry \<Rightarrow> (case pe_status entry of None \<Rightarrow> ''unknown'' | Some s \<Rightarrow> s))
          ''pending'' None [] [] (now e) ''2.0'')"

definition exhausted :: "row_data \<Rightarrow> file_entry list \<Rightarrow> metadata \<Rightarrow> metadata" where
  \<comment> \<open>the block "All sources exhausted"; \<open>fs\<close> is the variable \<^verbatim>\<open>files\<close> there, which
      holds the result of the last step, the Wayback Machine. The list
      \<^verbatim>\<open>all_files_in_dir\<close> is computed there and never read.\<close>
  "exhausted row fs md =
     (if fs \<noteq> [] \<and> list_ex validation_failed fs
      then md\<lparr>files_downloaded := fs, status := ''validation_failed'',
              source_used := Some (source (hd fs))\<rparr>
      else if urls row \<noteq> [] then md\<lparr>status := ''failed''\<rparr>
      else md\<lparr>status := ''no_urls''\<rparr>)"

definition harvest_row ::
  "env \<Rightarrow> row_data \<Rightarrow> (string \<rightharpoonup> portal_entry) \<Rightarrow> string \<Rightarrow> bool \<Rightarrow> world
     \<Rightarrow> metadata \<times> world" where
  "harvest_row e row portal_map output_dir dry_run w =
     (let row_dir = path_join output_dir (row_id row);
          md = new_metadata e row portal_map
      in if dry_run then (md, w)
         else
           (case try_portal_source e row portal_map row_dir w of
              (fs1, w1) \<Rightarrow>
                let md1 = add_attempt ''portal'' (if fs1 \<noteq> [] then ''success'' else ''no_match'') md
                in if accepted fs1
                   then (succeed fs1 ''portal'' md1,
                         save_metadata (succeed fs1 ''portal'' md1) row_dir w1)
                   else
                     (case try_direct_urls e row row_dir w1 of
                        (fs2, w2) \<Rightarrow>
                          let md2 = add_attempt ''direct''
                                      (if fs2 \<noteq> [] then ''success'' else ''failed'') md1
                          in if accepted fs2
                             then (succeed fs2 ''direct'' md2,
                                   save_metadata (succeed fs2 ''direct'' md2) row_dir w2)
                             else
                               (case try_wayback_source e row row_dir w2 of
                                  (fs3, w3) \<Rightarrow>
                                    let md3 = add_attempt ''wayback''
                                                (if fs3 \<noteq> [] then ''success'' else ''failed'') md2
                                    in if accepted fs3
                                       then (succeed fs3 ''wayback'' md3,
                                             save_metadata (succeed fs3 ''wayback'' md3) row_dir w3)
                                       else (exhausted row fs3 md3,
                                             save_metadata (exhausted row fs3 md3) row_dir w3)))))"

record stats =
  n_total :: nat
  n_success :: nat
  n_failed :: nat
  n_no_urls :: nat
  n_validation_failed :: nat
  n_skipped :: nat
  n_portal :: nat
  n_direct :: nat
  n_wayback :: nat

definition resume_skips :: "world \<Rightarrow> string \<Rightarrow> string \<Rightarrow> bool" where
  \<comment> \<open>the resume check of \<^verbatim>\<open>main\<close>: the row's \<^verbatim>\<open>metadata.json\<close> exists, loads, and
      has status success\<close>
  "resume_skips w output_dir rid =
     (case map_of (metas w) (path_join (path_join output_dir rid) ''metadata.json'') of
        None \<Rightarrow> False
      | Some Unreadable \<Rightarrow> False
      | Some (Saved existing) \<Rightarrow> status existing = ''success'')"

definition update_stats :: "metadata \<Rightarrow> stats \<Rightarrow> stats" where
  "update_stats md st =
     (if status md = ''success''
      then
        (let st1 = st\<lparr>n_success := n_success st + 1\<rparr>
         in if source_used md = Some ''portal'' then st1\<lparr>n_portal := n_portal st1 + 1\<rparr>
            else if source_used md = Some ''direct'' then st1\<lparr>n_direct := n_direct st1 + 1\<rparr>
            else if source_used md = Some ''wayback'' then st1\<lparr>n_wayback := n_wayback st1 + 1\<rparr>
            else st1)
      else if status md = ''no_urls'' then st\<lparr>n_no_urls := n_no_urls st + 1\<rparr>
      else if status md = ''validation_failed''
      then st\<lparr>n_validation_failed := n_validation_failed st + 1\<rparr>
      else st\<lparr>n_failed := n_failed st + 1\<rparr>)"

definition process_row ::
  "env \<Rightarrow> (string \<rightharpoonup> portal_entry) \<Rightarrow> string \<Rightarrow> bool \<Rightarrow> bool \<Rightarrow> row_data \<Rightarrow> world \<times> stats
     \<Rightarrow> world \<times> stats" where
  \<comment> \<open>the body of the loop of \<^verbatim>\<open>main\<close> over the rows\<close>
  "process_row e portal_map output_dir resume dry_run row ws =
     (case ws of
        (w, st) \<Rightarrow>
          if resume \<and> resume_skips w output_dir (row_id row)
          then (w, st\<lparr>n_skipped := n_skipped st + 1\<rparr>)
          else
            (case harvest_row e row portal_map output_dir dry_run w of
               (md, w1) \<Rightarrow> (w1, update_stats md st)))"

definition main_loop ::
  "env \<Rightarrow> (string \<rightharpoonup> portal_entry) \<Rightarrow> string \<Rightarrow> bool \<Rightarrow> bool \<Rightarrow> row_data list \<Rightarrow> world
     \<Rightarrow> world \<times> stats" where
  "main_loop e portal_map output_dir resume dry_run rows w =
     fold (process_row e portal_map output_dir resume dry_run) rows
       (w, \<lparr>n_total = length rows, n_success = 0, n_failed = 0, n_no_urls = 0,
            n_validation_failed = 0, n_skipped = 0, n_portal = 0, n_direct = 0, n_wayback = 0\<rparr>)"

section \<open>Shapes of a fetch result\<close>

definition accepted_entry :: "file_entry \<Rightarrow> bool" where
  \<comment> \<open>an artifact the validator accepted\<close>
  "accepted_entry f \<longleftrightarrow>
     valid (validation f) \<and> reason (validation f) = ''ok'' \<and> \<not> validation_failed f"

definition rejected_page :: "file_entry \<Rightarrow> bool" where
  \<comment> \<open>the saved HTML page that the validator rejected, kept and marked\<close>
  "rejected_page f \<longleftrightarrow>
     \<not> valid (validation f) \<and> validation_failed f \<and> filename f = ''page_content.html''"

definition fetch_result :: "file_entry list \<Rightarrow> bool" where
  \<comment> \<open>what a download returns: accepted artifacts only (possibly none), or the one
      rejected page\<close>
  "fetch_result fs \<longleftrightarrow> list_all accepted_entry fs \<or> (\<exists>f. fs = [f] \<and> rejected_page f)"

fun all_empty :: "env \<Rightarrow> string list \<Rightarrow> string \<Rightarrow> world \<Rightarrow> bool" where
  \<comment> \<open>every URL of the list, downloaded in turn as a direct URL, yields no file entry\<close>
  "all_empty e [] row_dir w = True"
| "all_empty e (u # us) row_dir w =
     (fst (try_download_url e u row_dir ''direct'' w) = []
      \<and> all_empty e us row_dir (snd (try_download_url e u row_dir ''direct'' w)))"

fun after_downloads :: "env \<Rightarrow> string list \<Rightarrow> string \<Rightarrow> world \<Rightarrow> world" where
  \<comment> \<open>the world after every URL of the list has been downloaded in turn\<close>
  "after_downloads e [] row_dir w = w"
| "after_downloads e (u # us) row_dir w =
     after_downloads e us row_dir (snd (try_download_url e u row_dir ''direct'' w))"

section \<open>Example inputs\<close>

text \<open>
  Concrete files and pages on which the results below are run: a PDF of 309 bytes, a
  page of 655 bytes with an access-denied phrase and 600 characters of body text, the same
  phrase in a page of 39 bytes, and a short page with a generic error phrase.
\<close>

definition world0 :: world where
  \<comment> \<open>an empty output directory, before any request\<close>
  "world0 = \<lparr>files = [], metas = [], requests = []\<rparr>"

definition offline :: env where
  \<comment> \<open>no URL answers and no page has links; a file is named after the last component
      of the final URL, as \<^verbatim>\<open>guess_filename\<close> does when no Content-Disposition header
      names it\<close>
  "offline =
     \<lparr>http_get = (\<lambda>u. None),
      guess_filename = (\<lambda>resp u. basename (resp_url resp)),
      sha256_file = (\<lambda>data. ''sha256''),
      bs4_available = True,
      anchor_hrefs = (\<lambda>page. []),
      urljoin = (\<lambda>base href. href),
      url_path = (\<lambda>u. u),
      url_netloc = (\<lambda>u. []),
      now = ''2025-01-01T00:00:00+00:00''\<rparr>"

definition answer :: "string \<Rightarrow> string \<Rightarrow> string \<Rightarrow> Response" where
  \<comment> \<open>a 200 answer from \<open>u\<close> with the content type and body given\<close>
  "answer u ctype body =
     \<lparr>status_code = 200, resp_url = u, resp_content_type = ctype, resp_content = body,
      resp_text = body\<rparr>"

definition row0 :: "string list \<Rightarrow> row_data" where
  \<comment> \<open>row 0001 of an inventory, with the candidate URLs given\<close>
  "row0 us =
     \<lparr>row_id = ''0001'', office = ''OCC'', doc_number = ''CCDF-ACF-IM-2019-01'',
      title = ''Information Memorandum'', date = ''2019-01-15'', doc_type = ''IM'', urls = us\<rparr>"

definition pdf_bytes :: string where
  "pdf_bytes = ''%PDF-1.4 '' @ replicate 300 CHR ''x''"

definition denied_page :: string where
  "denied_page =
     ''<html><body><h1>'' @ ''Access Denied'' @ ''</h1><p>'' @ replicate 600 CHR ''x''
       @ ''</p></body></html>''"

definition tiny_denied_page :: string where
  "tiny_denied_page = ''<html><body>Access Denied</body></html>''"

definition not_found_page :: string where
  "not_found_page = ''<html>'' @ ''404 error'' @ replicate 200 CHR ''x'' @ ''</html>''"

section \<open>Facts about strings\<close>

lemma startswith_iff: "startswith s p \<longleftrightarrow> take (length p) s = p"
  by (induction s p rule: startswith.induct) auto

lemma startswith_split: "startswith s p \<Longrightarrow> s = p @ drop (length p) s"
  by (metis append_take_drop_id startswith_iff)

lemma startswith_set: "startswith s p \<Longrightarrow> set p \<subseteq> set s"
  by (induction s p rule: startswith.induct) auto

lemma is_substring_startswith: "startswith s sub \<Longrightarrow> is_substring sub s"
  by (cases s; cases sub) auto

lemma is_substring_here: "is_substring sub (sub @ post)"
  by (rule is_substring_startswith) (simp add: startswith_iff)

lemma is_substring_append: "is_substring sub s \<Longrightarrow> is_substring sub (pre @ s)"
  by (induction pre) auto

lemma is_substring_middle: "is_substring sub (pre @ sub @ post)"
  by (rule is_substring_append) (rule is_substring_here)

lemma is_substring_set: "is_substring sub s \<Longrightarrow> set sub \<subseteq> set s"
proof (induction s)
  case Nil
  then show ?case by simp
next
  case (Cons a s)
  from Cons.prems have "startswith (a # s) sub \<or> is_substring sub s" by simp
  then show ?case
  proof
    assume "startswith (a # s) sub"
    then show ?thesis by (rule startswith_set)
  next
    assume "is_substring sub s"
    with Cons.IH show ?thesis by auto
  qed
qed

lemma lower_append: "lower (a @ b) = lower a @ lower b"
  by (simp add: lower_def)

lemma check_none:
  "list_all (\<lambda>i. \<not> set (lower i) \<subseteq> set (lower text)) inds \<Longrightarrow>
   check_for_junk_indicators text inds = []"
  by (induction inds) (auto simp: check_for_junk_indicators_def dest: is_substring_set)

lemma check_some:
  "i \<in> set inds \<Longrightarrow> is_substring (lower i) (lower text) \<Longrightarrow>
   check_for_junk_indicators text inds \<noteq> []"
  by (auto simp: check_for_junk_indicators_def filter_empty_conv)

lemma re_sub_from_length: "length repl \<le> 1 \<Longrightarrow> length (re_sub_from m repl k s) \<le> length s"
proof (induction m repl k s rule: re_sub_from.induct)
  case (3 m repl c cs)
  then show ?case
    by (auto split: option.splits nat.splits)
qed auto

lemma re_sub_le: "length repl \<le> 1 \<Longrightarrow> length s \<le> n \<Longrightarrow> length (re_sub m repl s) \<le> n"
  using re_sub_from_length [of repl m 0 s] by (simp add: re_sub_def)

lemma str_replace_le: "length new \<le> 1 \<Longrightarrow> length s \<le> n \<Longrightarrow> length (str_replace old new s) \<le> n"
  by (simp add: str_replace_def re_sub_le)

lemma strip_le: "length s \<le> n \<Longrightarrow> length (strip s) \<le> n"
proof -
  have "length (strip s) \<le> length (dropWhile is_space s)"
    by (simp add: strip_def) (metis length_dropWhile_le length_rev)
  also have "\<dots> \<le> length s" by (rule length_dropWhile_le)
  finally show "length s \<le> n \<Longrightarrow> length (strip s) \<le> n" by simp
qed

lemma extract_visible_text_length: "length (extract_visible_text s) \<le> length s"
  unfolding extract_visible_text_def Let_def fold_simps id_apply o_apply
  by (intro strip_le re_sub_le str_replace_le) simp_all

section \<open>Facts about validate\_content\<close>

lemma detect_signature:
  assumes "(sg, ftype) \<in> set FILE_SIGNATURES" "startswith content sg"
  shows "detect_file_type (Some content) = ftype"
proof -
  obtain r where c: "content = sg @ r"
    using startswith_split [OF assms(2)] by blast
  have "match_signature (take 16 (sg @ r)) FILE_SIGNATURES = Some ftype"
    using assms(1) unfolding FILE_SIGNATURES_def
    by (elim disjE conjE | simp)+
  then show ?thesis by (simp add: detect_file_type_def c)
qed

lemma validate_small:
  "fs p = Some content \<Longrightarrow> 0 < length content \<Longrightarrow> length content < 200 \<Longrightarrow>
   validate_content fs p n = mk_result False p ''file_too_small'' [(''size_bytes'', DInt (length content))]"
  by (simp add: validate_content_def)

lemma validate_document:
  assumes "fs p = Some content" "200 \<le> length content"
    and "detect_file_type (Some content) \<in> {''pdf'', ''zip_based'', ''ole'', ''rtf''}"
  shows "validate_content fs p n =
     mk_result True p ''ok''
       [(''actual_type'', DStr (detect_file_type (Some content))), (''size_bytes'', DInt (length content))]"
proof -
  have t: "detect_file_type (Some content) \<in> set [''pdf'', ''zip_based'', ''ole'', ''rtf'']"
    using assms(3) by simp
  have s: "\<not> length content = 0" "\<not> length content < 200"
    using assms(2) by auto
  show ?thesis
    unfolding validate_content_def Let_def assms(1) option.case if_not_P [OF s(1)] if_not_P [OF s(2)]
      if_P [OF t]
    by (rule refl)
qed

lemma validate_markup:
  assumes "fs p = Some content" "200 \<le> length content"
    and "detect_file_type (Some content) \<in> {''html'', ''text''}"
  shows "validate_content fs p n =
     (if lower (splitext_ext p) = ''.pdf'' \<and> detect_file_type (Some content) = ''html''
      then mk_result False p ''html_masquerade''
             [(''declared_type'', DStr ''pdf''), (''actual_type'', DStr ''html'')]
      else if check_for_junk_indicators content DOJ_INDICATORS \<noteq> []
      then mk_result False p ''doj_access_denied''
             [(''matched_indicators'', DList (check_for_junk_indicators content DOJ_INDICATORS))]
      else if check_for_junk_indicators content WAYBACK_ERROR_INDICATORS \<noteq> []
      then mk_result False p ''wayback_error''
             [(''matched_indicators'', DList (check_for_junk_indicators content WAYBACK_ERROR_INDICATORS))]
      else if check_for_junk_indicators content GENERIC_ERROR_INDICATORS \<noteq> []
              \<and> length (extract_visible_text content) < 2000
      then mk_result False p ''generic_error_page''
             [(''matched_indicators'', DList (check_for_junk_indicators content GENERIC_ERROR_INDICATORS)),
              (''visible_chars'', DInt (length (extract_visible_text content)))]
      else (case is_empty_shell content n of
              (is_shell, char_count, shell_reason) \<Rightarrow>
                if is_shell then mk_result False p shell_reason [(''visible_chars'', DInt char_count)]
                else mk_result True p ''ok''
                       [(''actual_type'', DStr (detect_file_type (Some content))),
                        (''size_bytes'', DInt (length content)),
                        (''visible_chars'', DInt (length (extract_visible_text content)))]))"
proof -
  have t: "detect_file_type (Some content) \<notin> set [''pdf'', ''zip_based'', ''ole'', ''rtf'']"
      "detect_file_type (Some content) \<notin> set [''png'', ''jpg'', ''gif'']"
      "\<not> detect_file_type (Some content) \<notin> set [''html'', ''text'']"
    using assms(3) by auto
  have s: "\<not> length content = 0" "\<not> length content < 200"
    using assms(2) by auto
  show ?thesis
    unfolding validate_content_def Let_def assms(1) option.case if_not_P [OF s(1)] if_not_P [OF s(2)]
      if_not_P [OF t(1)] if_not_P [OF t(2)] if_not_P [OF t(3)]
    by (rule refl)
qed

lemma validate_valid_ok: "valid (validate_content fs p n) \<longleftrightarrow> reason (validate_content fs p n) = ''ok''"
  by (simp add: validate_content_def is_empty_shell_def mk_result_def Let_def split: option.split)

lemma reason_generic:
  assumes "fs p = Some content" "reason (validate_content fs p n) = ''generic_error_page''"
  shows "200 \<le> length content \<and> detect_file_type (Some content) \<in> {''html'', ''text''}
     \<and> check_for_junk_indicators content GENERIC_ERROR_INDICATORS \<noteq> []
     \<and> length (extract_visible_text content) < 2000"
  using assms
  by (simp add: validate_content_def is_empty_shell_def mk_result_def Let_def split: if_splits)

lemma lower_access_denied:
  "lower ''Access Denied'' = ''access denied''" "lower ''access denied'' = ''access denied''"
  by (simp_all add: lower_def lower_char_def)

lemma denied_page_html: "detect_file_type (Some denied_page) = ''html''"
  by (simp add: denied_page_def detect_file_type_def FILE_SIGNATURES_def strip_def lower_def
      lower_char_def is_space_def)

lemma denied_page_phrase: "is_substring (lower ''access denied'') (lower denied_page)"
  unfolding denied_page_def lower_append lower_access_denied
  by (rule is_substring_middle)

lemma denied_page_length: "length denied_page = 655"
  by (simp add: denied_page_def)

lemma denied_page_rejected:
  assumes "fs p = Some denied_page" "lower (splitext_ext p) \<noteq> ''.pdf''"
  shows "\<not> valid (validate_content fs p n) \<and> reason (validate_content fs p n) = ''doj_access_denied''"
proof -
  have "check_for_junk_indicators denied_page DOJ_INDICATORS \<noteq> []"
    by (rule check_some [OF _ denied_page_phrase]) (simp add: DOJ_INDICATORS_def)
  then show ?thesis
    using assms(2)
    by (simp add: validate_markup [of fs p denied_page n, OF assms(1)] denied_page_length denied_page_html mk_result_def)
qed

lemma tiny_page_html: "detect_file_type (Some tiny_denied_page) = ''html''"
  by (simp add: tiny_denied_page_def detect_file_type_def FILE_SIGNATURES_def strip_def lower_def
      lower_char_def is_space_def)

lemma tiny_page_length: "length tiny_denied_page = 39"
  by (simp add: tiny_denied_page_def)

lemma tiny_page_rejected:
  assumes "fs p = Some tiny_denied_page"
  shows "validate_content fs p n = mk_result False p ''file_too_small'' [(''size_bytes'', DInt 39)]"
  using validate_small [of fs p tiny_denied_page n, OF assms] by (simp add: tiny_page_length)

lemma pdf_bytes_accepted:
  assumes "fs p = Some pdf_bytes"
  shows "validate_content fs p n =
     mk_result True p ''ok'' [(''actual_type'', DStr ''pdf''), (''size_bytes'', DInt 309)]"
proof -
  have "detect_file_type (Some pdf_bytes) = ''pdf''"
    by (rule detect_signature [of "''%PDF''"]) (simp_all add: FILE_SIGNATURES_def pdf_bytes_def)
  then show ?thesis
    using validate_document [of fs p pdf_bytes n, OF assms] by (simp add: pdf_bytes_def)
qed

lemma not_found_page_rejected:
  assumes "fs p = Some not_found_page" "lower (splitext_ext p) \<noteq> ''.pdf''"
  shows "reason (validate_content fs p n) = ''generic_error_page''"
proof -
  have t: "detect_file_type (Some not_found_page) = ''html''"
    by (simp add: not_found_page_def detect_file_type_def FILE_SIGNATURES_def strip_def lower_def
        lower_char_def is_space_def)
  have l: "length not_found_page = 222"
    by (simp add: not_found_page_def)
  have d: "check_for_junk_indicators not_found_page DOJ_INDICATORS = []"
    by (rule check_none) (simp add: DOJ_INDICATORS_def not_found_page_def lower_def lower_char_def)
  have w: "check_for_junk_indicators not_found_page WAYBACK_ERROR_INDICATORS = []"
    by (rule check_none)
      (simp add: WAYBACK_ERROR_INDICATORS_def not_found_page_def lower_def lower_char_def)
  have e: "lower ''404 error'' = ''404 error''"
    by (simp add: lower_def lower_char_def)
  have g: "check_for_junk_indicators not_found_page GENERIC_ERROR_INDICATORS \<noteq> []"
  proof (rule check_some)
    show "''404 error'' \<in> set GENERIC_ERROR_INDICATORS"
      by (simp add: GENERIC_ERROR_INDICATORS_def)
    show "is_substring (lower ''404 error'') (lower not_found_page)"
      unfolding not_found_page_def lower_append e by (rule is_substring_middle)
  qed
  have v: "length (extract_visible_text not_found_page) < 2000"
    using extract_visible_text_length [of not_found_page] by (simp add: l)
  show ?thesis
    using assms(2) by (simp add: validate_markup [of fs p not_found_page n, OF assms(1)] l t d w g v mk_result_def)
qed

section \<open>Claims about validate\_content\<close>

text \<open>
  Claim C10. Every result of \<^verbatim>\<open>validate_content\<close> has its accepted flag set if and only if
  its reason code is \<^verbatim>\<open>ok\<close>: a rejection carries another reason, and an accepted
  result carries no rejection reason.
\<close>

theorem valid_iff_reason_ok:
  "valid (validate_content fs p n) \<longleftrightarrow> reason (validate_content fs p n) = ''ok''"
  by (rule validate_valid_ok)

theorem valid_iff_reason_ok_witness:
  "valid (validate_content [''out/0001/report.pdf'' \<mapsto> pdf_bytes] ''out/0001/report.pdf'' 500)
   \<and> reason (validate_content [''out/0001/report.pdf'' \<mapsto> pdf_bytes] ''out/0001/report.pdf'' 500) = ''ok''
   \<and> \<not> valid (validate_content [''out/0001/page_content.html'' \<mapsto> tiny_denied_page] ''out/0001/page_content.html'' 500)
   \<and> reason (validate_content [''out/0001/page_content.html'' \<mapsto> tiny_denied_page] ''out/0001/page_content.html'' 500) = ''file_too_small''"
  using valid_iff_reason_ok [of "[''out/0001/report.pdf'' \<mapsto> pdf_bytes]" "''out/0001/report.pdf''" 500]
  by (simp add: pdf_bytes_accepted tiny_page_rejected mk_result_def)

text \<open>
  Claim C7. A file whose first bytes are the signature of a binary document (PDF,
  ZIP-based Office, OLE Office, RTF) is accepted with reason \<^verbatim>\<open>ok\<close> whatever the
  path and its extension are, provided it has at least 200 bytes; below 200 bytes it is
  not accepted. The witness is a PDF stored under a name that ends in \<^verbatim>\<open>.html\<close>.
\<close>

theorem document_signature_accepted:
  assumes "fs p = Some content"
    and "(sg, ftype) \<in> set FILE_SIGNATURES"
    and "ftype \<in> {''pdf'', ''zip_based'', ''ole'', ''rtf''}"
    and "startswith content sg"
  shows "(200 \<le> length content \<longrightarrow>
            validate_content fs p n =
              mk_result True p ''ok''
                [(''actual_type'', DStr ftype), (''size_bytes'', DInt (length content))])
         \<and> (length content < 200 \<longrightarrow> \<not> valid (validate_content fs p n))"
proof -
  have t: "detect_file_type (Some content) = ftype"
    using assms(2,4) by (rule detect_signature)
  have "validate_content fs p n =
      mk_result True p ''ok'' [(''actual_type'', DStr ftype), (''size_bytes'', DInt (length content))]"
    if "200 \<le> length content"
    using validate_document [of fs p content n, OF assms(1) that] assms(3) by (simp add: t)
  moreover have "\<not> valid (validate_content fs p n)" if "length content < 200"
    using that assms(1) by (simp add: validate_content_def mk_result_def Let_def)
  ultimately show ?thesis by blast
qed

theorem document_signature_accepted_witness:
  "[''out/0001/download.html'' \<mapsto> pdf_bytes] ''out/0001/download.html'' = Some pdf_bytes
   \<and> (''%PDF'', ''pdf'') \<in> set FILE_SIGNATURES
   \<and> startswith pdf_bytes ''%PDF''
   \<and> 200 \<le> length pdf_bytes
   \<and> validate_content [''out/0001/download.html'' \<mapsto> pdf_bytes] ''out/0001/download.html'' 500 =
       mk_result True ''out/0001/download.html'' ''ok''
         [(''actual_type'', DStr ''pdf''), (''size_bytes'', DInt 309)]"
  using document_signature_accepted [of "[''out/0001/download.html'' \<mapsto> pdf_bytes]"
      "''out/0001/download.html''" pdf_bytes "''%PDF''" "''pdf''" 500]
  by (simp add: FILE_SIGNATURES_def pdf_bytes_def)


text \<open>
  Claim C6, as stated, fails: the size floor and the check of a \<^verbatim>\<open>.pdf\<close> name come
  before the indicator checks. A page of 39 bytes that contains "Access Denied" is
  rejected as \<^verbatim>\<open>file_too_small\<close>, not as \<^verbatim>\<open>doj_access_denied\<close>.
\<close>

theorem access_denied_small_page_counterexample:
  "detect_file_type (Some tiny_denied_page) = ''html''
   \<and> ''access denied'' \<in> set DOJ_INDICATORS
   \<and> is_substring (lower ''access denied'') (lower tiny_denied_page)
   \<and> validate_content [''output_v2/0001/page_content.html'' \<mapsto> tiny_denied_page]
         ''output_v2/0001/page_content.html'' 500 =
       mk_result False ''output_v2/0001/page_content.html'' ''file_too_small''
         [(''size_bytes'', DInt 39)]"
proof -
  have "is_substring (lower ''access denied'') (lower tiny_denied_page)"
    by (simp add: tiny_denied_page_def lower_def lower_char_def)
  then show ?thesis
    by (simp add: tiny_page_html tiny_page_rejected DOJ_INDICATORS_def)
qed

text \<open>
  Claim C6, amended. A file of at least 200 bytes whose detected type is \<^verbatim>\<open>html\<close> or
  \<^verbatim>\<open>text\<close>, that is not an HTML file named \<^verbatim>\<open>.pdf\<close>, and whose content contains
  an access-denied phrase (ignoring case) is rejected with reason
  \<^verbatim>\<open>doj_access_denied\<close>, for every threshold \<open>n\<close> on the visible text and whatever
  the length of the visible text is: the indicator check comes before the length checks.
\<close>

theorem access_denied_rejected:
  assumes "fs p = Some content"
    and "200 \<le> length content"
    and "detect_file_type (Some content) \<in> {''html'', ''text''}"
    and "\<not> (lower (splitext_ext p) = ''.pdf'' \<and> detect_file_type (Some content) = ''html'')"
    and "phrase \<in> set DOJ_INDICATORS"
    and "is_substring (lower phrase) (lower content)"
  shows "validate_content fs p n =
           mk_result False p ''doj_access_denied''
             [(''matched_indicators'', DList (check_for_junk_indicators content DOJ_INDICATORS))]"
proof -
  have "check_for_junk_indicators content DOJ_INDICATORS \<noteq> []"
    using assms(5,6) by (rule check_some)
  then show ?thesis
    using assms(4) by (auto simp add: validate_markup [of fs p content n, OF assms(1-3)])
qed

theorem access_denied_rejected_witness:
  "200 \<le> length denied_page
   \<and> detect_file_type (Some denied_page) = ''html''
   \<and> lower (splitext_ext ''output_v2/0001/page_content.html'') = ''.html''
   \<and> ''access denied'' \<in> set DOJ_INDICATORS
   \<and> is_substring (lower ''access denied'') (lower denied_page)
   \<and> validate_content [''output_v2/0001/page_content.html'' \<mapsto> denied_page]
         ''output_v2/0001/page_content.html'' 500 =
       mk_result False ''output_v2/0001/page_content.html'' ''doj_access_denied''
         [(''matched_indicators'', DList (check_for_junk_indicators denied_page DOJ_INDICATORS))]"
proof -
  have e: "lower (splitext_ext ''output_v2/0001/page_content.html'') = ''.html''"
    by (simp add: splitext_ext_def lower_def lower_char_def)
  have d: "''access denied'' \<in> set DOJ_INDICATORS"
    by (simp add: DOJ_INDICATORS_def)
  show ?thesis
    using access_denied_rejected [of "[''output_v2/0001/page_content.html'' \<mapsto> denied_page]"
        "''output_v2/0001/page_content.html''" denied_page "''access denied''" 500]
    by (simp add: e d denied_page_length denied_page_html denied_page_phrase)
qed

text \<open>
  Claim C8. \<^verbatim>\<open>validate_content\<close> gives the reason \<^verbatim>\<open>generic_error_page\<close> only if
  the content contains a generic error phrase and its visible text is shorter than 2000
  characters. By contraposition a file whose visible text has 2000 characters or more is
  never rejected with that reason.
\<close>

theorem generic_error_only_if_short:
  assumes "fs p = Some content"
    and "reason (validate_content fs p n) = ''generic_error_page''"
  shows "check_for_junk_indicators content GENERIC_ERROR_INDICATORS \<noteq> []
         \<and> length (extract_visible_text content) < 2000"
  using reason_generic [of fs p content n, OF assms] by simp

theorem generic_error_only_if_short_witness:
  "reason (validate_content [''output_v2/0001/page_content.html'' \<mapsto> not_found_page]
             ''output_v2/0001/page_content.html'' 500) = ''generic_error_page''
   \<and> check_for_junk_indicators not_found_page GENERIC_ERROR_INDICATORS \<noteq> []
   \<and> length (extract_visible_text not_found_page) < 2000"
proof -
  have e: "lower (splitext_ext ''output_v2/0001/page_content.html'') \<noteq> ''.pdf''"
    by (simp add: splitext_ext_def lower_def lower_char_def)
  have r: "reason (validate_content [''output_v2/0001/page_content.html'' \<mapsto> not_found_page]
             ''output_v2/0001/page_content.html'' 500) = ''generic_error_page''"
    by (rule not_found_page_rejected [OF _ e]) simp
  show ?thesis
    using generic_error_only_if_short [of "[''output_v2/0001/page_content.html'' \<mapsto> not_found_page]"
        "''output_v2/0001/page_content.html''" not_found_page 500] r
    by simp
qed

end
